theory Spec2Isabelle
  imports Main
begin

section \<open>Data model of the master server (server/abstruse.go)\<close>

text \<open>
  A Go \<open>error\<close> value is modelled by its message; a nil error is \<open>None\<close> of
  \<open>error option\<close>.
\<close>

datatype error = Error string

text \<open>
  \<open>GRPCServerConfig\<close> is declared outside the files at hand; its three fields are
  the ones the composite literal in \<open>main\<close> sets and \<open>NewAbstruse\<close> reads.
\<close>

record GRPCServerConfig =
  Port :: int
  Cert :: string
  CertKey :: string

text \<open>
  \<open>AbstruseConfig\<close>: the field \<open>GRPCConfig\<close> is a pointer, \<open>None\<close> is nil.
\<close>

record AbstruseConfig =
  HTTPAddress :: string
  HTTPSAddress :: string
  CertFile :: string
  KeyFile :: string
  GRPCConfig :: "GRPCServerConfig option"
  Dir :: string
  Debug :: bool

text \<open>
  The value returned by \<open>config.ReadAndParseConfig\<close>. The declaration of its type is
  outside the files at hand; the fields are the ones \<open>NewAbstruse\<close> and \<open>init\<close> read
  (\<open>cfg.Security.Cert\<close> is \<open>Security_Cert\<close>, and so on).
\<close>

record Config =
  Security_Cert :: string
  Security_CertKey :: string
  GRPC_Port :: int
  GRPC_Cert :: string
  GRPC_CertKey :: string
  Database_Client :: string
  Database_Host :: string
  Database_Port :: int
  Database_User :: string
  Database_Password :: string
  Database_Name :: string
  Database_Charset :: string

record db_Options =
  Client :: string
  Hostname :: string
  db_Port :: int
  User :: string
  Password :: string
  Database :: string
  Charset :: string

datatype Logger = NewLogger string bool bool

text \<open>
  The collaborators that live in other packages (\<open>fs\<close>, \<open>config\<close>, \<open>db\<close>, the gRPC
  server) are parameters of the model. \<open>'w\<close> is the state of the world outside the
  process (file system, database); calls that may change it return the new world.
  \<open>'g\<close> is the type of a gRPC server value; \<open>NewGRPCServer\<close> returns either an error
  or a non-nil server.
\<close>

record ('w, 'g) env =
  GetHomeDir :: "'w \<Rightarrow> string"
  ReadAndParseConfig :: "'w \<Rightarrow> string \<Rightarrow> Config"
  NewGRPCServer :: "'w \<Rightarrow> GRPCServerConfig \<Rightarrow> Logger \<Rightarrow> error + 'g"
  Exists :: "'w \<Rightarrow> string \<Rightarrow> bool"
  MakeDir :: "'w \<Rightarrow> string \<Rightarrow> error option \<times> 'w"
  WriteDefaultConfig :: "'w \<Rightarrow> string \<Rightarrow> error option \<times> 'w"
  db_Connect :: "'w \<Rightarrow> db_Options \<Rightarrow> error option \<times> 'w"

text \<open>
  \<open>Abstruse\<close>: \<open>config\<close> is the pointer passed to \<open>NewAbstruse\<close>, so it holds the
  configuration as \<open>NewAbstruse\<close> left it. \<open>running\<close> is a channel of errors with a
  buffer of one element: the list is the buffer's content, oldest first.
\<close>

record 'g Abstruse =
  config :: AbstruseConfig
  grpcserver :: 'g
  logger :: Logger
  dir :: string
  running :: "error option list"

text \<open>What a call produces: a value, an error return, or a runtime panic.\<close>

datatype 'a go_result = Return 'a | Failure error | Panic

section \<open>NewAbstruse\<close>

text \<open>Lines 45 to 49: the working directory, the home directory's when none is given.\<close>

definition work_dir :: "('w, 'g) env \<Rightarrow> 'w \<Rightarrow> AbstruseConfig \<Rightarrow> string" where
  "work_dir e w c = (if Dir c = [] then GetHomeDir e w @ ''/abstruse'' else Dir c)"

text \<open>Lines 53 to 56: the certificate and the key of the HTTPS listener.\<close>

definition https_from_file :: "Config \<Rightarrow> AbstruseConfig \<Rightarrow> AbstruseConfig" where
  "https_from_file cfg c =
     (if CertFile c = [] \<or> KeyFile c = []
      then c\<lparr>CertFile := Security_Cert cfg, KeyFile := Security_CertKey cfg\<rparr>
      else c)"

text \<open>Lines 58 to 65: the port, the certificate and the key of the gRPC server.\<close>

definition grpc_from_file :: "Config \<Rightarrow> GRPCServerConfig \<Rightarrow> GRPCServerConfig" where
  "grpc_from_file cfg g =
     (let g1 = (if Port g = 0 then g\<lparr>Port := GRPC_Port cfg\<rparr> else g)
      in if Cert g1 = [] \<or> CertKey g1 = []
         then g1\<lparr>Cert := GRPC_Cert cfg, CertKey := GRPC_CertKey cfg\<rparr>
         else g1)"

text \<open>
  \<open>NewAbstruse\<close> writes through the pointer \<open>c\<close>: the first component of the result
  is the configuration the caller sees afterwards, also when the call fails.
  Line 58 dereferences \<open>c.GRPCConfig\<close>, which panics on nil, after lines 53 to 56 have
  already run.
\<close>

definition NewAbstruse ::
  "('w, 'g) env \<Rightarrow> 'w \<Rightarrow> AbstruseConfig \<Rightarrow> AbstruseConfig \<times> 'g Abstruse go_result" where
  "NewAbstruse e w c =
    (let log = NewLogger [] True (Debug c);
         d = work_dir e w c;
         cfg = ReadAndParseConfig e w (d @ ''/config.json'');
         c1 = https_from_file cfg c
     in case GRPCConfig c1 of
          None \<Rightarrow> (c1, Panic)
        | Some g \<Rightarrow>
            (let g2 = grpc_from_file cfg g;
                 c2 = c1\<lparr>GRPCConfig := Some g2\<rparr>
             in case NewGRPCServer e w g2 log of
                  Inl err \<Rightarrow> (c2, Failure err)
                | Inr srv \<Rightarrow>
                    (c2, Return \<lparr>config = c2, grpcserver = srv, logger = log,
                                 dir = d, running = []\<rparr>)))"

text \<open>The configuration file \<open>NewAbstruse\<close> reads.\<close>

definition config_file :: "('w, 'g) env \<Rightarrow> 'w \<Rightarrow> AbstruseConfig \<Rightarrow> Config" where
  "config_file e w c = ReadAndParseConfig e w (work_dir e w c @ ''/config.json'')"

section \<open>init and Run\<close>

text \<open>
  \<open>init\<close> creates the working directory and the default configuration file when they
  are missing, and connects to the database; the first error ends it.
\<close>

definition init :: "('w, 'g) env \<Rightarrow> 'w \<Rightarrow> 'g Abstruse \<Rightarrow> error option \<times> 'w" where
  "init e w a =
    (case (if \<not> Exists e w (dir a) then MakeDir e w (dir a) else (None, w)) of
       (Some err, w1) \<Rightarrow> (Some err, w1)
     | (None, w1) \<Rightarrow>
         (let configPath = dir a @ ''/config.json'' in
          case (if \<not> Exists e w1 configPath then WriteDefaultConfig e w1 configPath
                else (None, w1)) of
            (Some err, w2) \<Rightarrow> (Some err, w2)
          | (None, w2) \<Rightarrow>
              (let cfg = ReadAndParseConfig e w2 configPath;
                   dbopts = \<lparr>Client = Database_Client cfg, Hostname = Database_Host cfg,
                             db_Port = Database_Port cfg, User = Database_User cfg,
                             Password = Database_Password cfg, Database = Database_Name cfg,
                             Charset = Database_Charset cfg\<rparr>
               in db_Connect e w2 dbopts)))"

text \<open>
  \<open>Run\<close> starts each listener in a goroutine of its own (a \<open>go\<close> statement) and then
  blocks in \<open>wait\<close>. The model records which goroutines the call has started and how
  the call itself ends.
\<close>

datatype goroutine =
    HTTPListener string
  | HTTPSListener string string string
  | GRPCListener

datatype run_outcome =
    Returned "error option"
  | LogFatal string
  | Panics
  | ReachesWait

record run_result =
  spawned :: "goroutine list"
  outcome :: run_outcome

definition grpc_fatal_message :: string where
  "grpc_fatal_message =
     ''gRPC server cannot work without certificate and key path specified. exiting...''"

text \<open>
  The receiver is a pointer: \<open>None\<close> is the nil receiver, on which \<open>a.init()\<close> panics at
  its first field access. \<open>log.Fatal\<close> ends the process, so nothing after line 128 runs
  and \<open>wait\<close> is reached on the other branch only.
\<close>

definition Run :: "('w, 'g) env \<Rightarrow> 'w \<Rightarrow> 'g Abstruse option \<Rightarrow> run_result \<times> 'w" where
  "Run e w ao =
    (case ao of
       None \<Rightarrow> (\<lparr>spawned = [], outcome = Panics\<rparr>, w)
     | Some a \<Rightarrow>
         (case init e w a of
            (Some err, w') \<Rightarrow> (\<lparr>spawned = [], outcome = Returned (Some err)\<rparr>, w')
          | (None, w') \<Rightarrow>
              (let c = config a;
                   http = (if HTTPAddress c \<noteq> [] then [HTTPListener (HTTPAddress c)] else []);
                   https = (if HTTPSAddress c \<noteq> [] \<and> CertFile c \<noteq> [] \<and> KeyFile c \<noteq> []
                            then [HTTPSListener (HTTPSAddress c) (CertFile c) (KeyFile c)]
                            else [])
               in case GRPCConfig c of
                    None \<Rightarrow> (\<lparr>spawned = http @ https, outcome = Panics\<rparr>, w')
                  | Some g \<Rightarrow>
                      (if Cert g \<noteq> [] \<and> CertKey g \<noteq> []
                       then (\<lparr>spawned = http @ https @ [GRPCListener],
                              outcome = ReachesWait\<rparr>, w')
                       else (\<lparr>spawned = http @ https,
                              outcome = LogFatal grpc_fatal_message\<rparr>, w')))))"

text \<open>
  The bodies of the goroutines. Each one blocks in a listen call; the second argument is
  the value that call returns, if it ever returns. The HTTP and HTTPS goroutines pass it
  to \<open>log.Fatal\<close> whatever it is; the gRPC goroutine calls \<open>log.Fatal\<close> for an error only
  and ends otherwise.
\<close>

datatype goroutine_end = Finishes | Aborts "error option"

fun goroutine_body :: "goroutine \<Rightarrow> error option \<Rightarrow> goroutine_end" where
  "goroutine_body (HTTPListener addr) r = Aborts r"
| "goroutine_body (HTTPSListener addr cert key) r = Aborts r"
| "goroutine_body GRPCListener r = (case r of None \<Rightarrow> Finishes | Some err \<Rightarrow> Aborts (Some err))"

fun is_http :: "goroutine \<Rightarrow> bool" where
  "is_http (HTTPListener addr) = True"
| "is_http g = False"

fun is_https :: "goroutine \<Rightarrow> bool" where
  "is_https (HTTPSListener addr cert key) = True"
| "is_https g = False"

text \<open>
  Modelled from the spec: the method \<open>Listen\<close> of the gRPC server, which \<open>Run\<close> calls at
  line 123 and whose code is not among the files at hand. Section 4.1 of the
  specification: the worker channel is started from a certificate and a key, it fails with
  a \<open>ConfigError\<close> if the certificate or the key is absent or invalid, and there is no
  plaintext fallback. The server was built from the \<open>GRPCServerConfig\<close> of the instance,
  so these are the \<open>Cert\<close> and \<open>CertKey\<close> of that configuration. \<open>valid\<close> tells which
  paths hold valid certificate material. \<open>None\<close> is a \<open>Listen\<close> that does not return: it
  serves the workers.
\<close>

definition Listen :: "(string \<Rightarrow> bool) \<Rightarrow> GRPCServerConfig \<Rightarrow> error option" where
  "Listen valid g =
     (if Cert g \<noteq> [] \<and> CertKey g \<noteq> [] \<and> valid (Cert g) \<and> valid (CertKey g) then None
      else Some (Error ''ConfigError''))"

section \<open>The command line (cmd/abstruse/abstruse.go)\<close>

text \<open>The variables the flags of \<open>main\<close> are bound to, and their values.\<close>

datatype flag_var =
    V_httpAddr | V_httpsAddr | V_certFile | V_keyFile
  | V_grpcPort | V_gRPCCertFile | V_gRPCKeyFile

record flags =
  httpAddr :: string
  httpsAddr :: string
  certFile :: string
  keyFile :: string
  grpcPort :: int
  gRPCCertFile :: string
  gRPCKeyFile :: string

text \<open>The flags registered at lines 12 to 18, by name, and their default values.\<close>

definition CommandLine :: "(string \<times> flag_var) list" where
  "CommandLine =
     [(''http'', V_httpAddr), (''https'', V_httpsAddr), (''cert'', V_certFile),
      (''certkey'', V_keyFile), (''grpc-port'', V_grpcPort),
      (''grpc-cert'', V_gRPCCertFile), (''grpc-certkey'', V_gRPCKeyFile)]"

definition flag_defaults :: flags where
  "flag_defaults =
     \<lparr>httpAddr = ''0.0.0.0:80'', httpsAddr = ''0.0.0.0:443'', certFile = [], keyFile = [],
      grpcPort = 3330, gRPCCertFile = [], gRPCKeyFile = []\<rparr>"

text \<open>
  \<open>flag.Parse\<close>, on a command line given as the list of its \<open>-name=value\<close> pairs.
  A name that is not registered is an error, and so is a value of \<open>grpc-port\<close> that is
  not an integer; \<open>atoi\<close> is the conversion of the standard library. The names
  \<open>help\<close> and \<open>h\<close>, which \<open>main\<close> does not register, ask for the usage. At the first
  error \<open>flag.Parse\<close> prints the usage and ends the process.
\<close>

fun flag_Set :: "(string \<Rightarrow> int option) \<Rightarrow> flags \<Rightarrow> flag_var \<Rightarrow> string \<Rightarrow> error + flags" where
  "flag_Set atoi fl V_httpAddr v = Inr (fl\<lparr>httpAddr := v\<rparr>)"
| "flag_Set atoi fl V_httpsAddr v = Inr (fl\<lparr>httpsAddr := v\<rparr>)"
| "flag_Set atoi fl V_certFile v = Inr (fl\<lparr>certFile := v\<rparr>)"
| "flag_Set atoi fl V_keyFile v = Inr (fl\<lparr>keyFile := v\<rparr>)"
| "flag_Set atoi fl V_grpcPort v =
     (case atoi v of
        None \<Rightarrow> Inl (Error ''invalid value for flag -grpc-port'')
      | Some n \<Rightarrow> Inr (fl\<lparr>grpcPort := n\<rparr>))"
| "flag_Set atoi fl V_gRPCCertFile v = Inr (fl\<lparr>gRPCCertFile := v\<rparr>)"
| "flag_Set atoi fl V_gRPCKeyFile v = Inr (fl\<lparr>gRPCKeyFile := v\<rparr>)"

fun parse_from :: "(string \<Rightarrow> int option) \<Rightarrow> flags \<Rightarrow> (string \<times> string) list \<Rightarrow> error + flags" where
  "parse_from atoi fl [] = Inr fl"
| "parse_from atoi fl ((name, v) # rest) =
     (case map_of CommandLine name of
        None \<Rightarrow>
          (if name = ''help'' \<or> name = ''h'' then Inl (Error ''flag: help requested'')
           else Inl (Error ''flag provided but not defined''))
      | Some var \<Rightarrow>
          (case flag_Set atoi fl var v of
             Inl err \<Rightarrow> Inl err
           | Inr fl' \<Rightarrow> parse_from atoi fl' rest))"

definition flag_Parse :: "(string \<Rightarrow> int option) \<Rightarrow> (string \<times> string) list \<Rightarrow> error + flags" where
  "flag_Parse atoi args = parse_from atoi flag_defaults args"


text \<open>The composite literal of lines 24 to 34.\<close>

definition main_config :: "flags \<Rightarrow> AbstruseConfig" where
  "main_config fl =
     \<lparr>HTTPAddress = httpAddr fl, HTTPSAddress = httpsAddr fl,
      CertFile = certFile fl, KeyFile = keyFile fl,
      GRPCConfig = Some \<lparr>Port = grpcPort fl, Cert = gRPCCertFile fl, CertKey = gRPCKeyFile fl\<rparr>,
      Dir = [], Debug = False\<rparr>"

text \<open>
  How the main goroutine ends. \<open>main\<close> drops the error of \<open>NewAbstruse\<close>, so after a
  failed \<open>NewAbstruse\<close> it calls \<open>Run\<close> on a nil pointer. \<open>MainBlocked\<close> is the process
  that serves: the main goroutine is blocked in \<open>wait\<close> beside the goroutines listed.
\<close>

datatype main_outcome =
    FlagError error
  | MainPanics
  | MainLogFatal string
  | MainExit int
  | MainBlocked "goroutine list"

fun after_Run :: "run_result \<Rightarrow> main_outcome" where
  "after_Run r =
     (case outcome r of
        Returned None \<Rightarrow> MainExit 0
      | Returned (Some (Error m)) \<Rightarrow> MainLogFatal m
      | LogFatal m \<Rightarrow> MainLogFatal m
      | Panics \<Rightarrow> MainPanics
      | ReachesWait \<Rightarrow> MainBlocked (spawned r))"

definition main :: "('w, 'g) env \<Rightarrow> (string \<Rightarrow> int option) \<Rightarrow> 'w \<Rightarrow> (string \<times> string) list \<Rightarrow> main_outcome" where
  "main e atoi w args =
    (case flag_Parse atoi args of
       Inl err \<Rightarrow> FlagError err
     | Inr fl \<Rightarrow>
         (case snd (NewAbstruse e w (main_config fl)) of
            Panic \<Rightarrow> MainPanics
          | Failure err \<Rightarrow> after_Run (fst (Run e w None))
          | Return a \<Rightarrow> after_Run (fst (Run e w (Some a)))))"

fun is_fatal :: "main_outcome \<Rightarrow> bool" where
  "is_fatal (MainLogFatal m) = True"
| "is_fatal MainPanics = True"
| "is_fatal r = False"


section \<open>Close and wait\<close>

text \<open>
  \<open>Close\<close> and \<open>wait\<close> run in different goroutines and meet at the channel \<open>running\<close>,
  whose buffer holds one value. The state of a running instance, as far as \<open>Close\<close>
  touches it:
  \<^item> \<open>chan\<close>: the buffer of \<open>a.running\<close>, oldest value first;
  \<^item> \<open>closer\<close>: where the goroutine that called \<open>Close\<close> stands;
  \<^item> \<open>run_ret\<close>: \<open>None\<close> while \<open>Run\<close> is blocked in \<open>wait\<close>, \<open>Some r\<close> once it has
    returned \<open>r\<close>;
  \<^item> \<open>https_listening\<close>: the HTTPS goroutine of \<open>Run\<close> is inside
    \<open>a.server.ListenAndServeTLS\<close>;
  \<^item> \<open>server_closed\<close>: \<open>a.server.Close()\<close> has been called;
  \<^item> \<open>aborted\<close>: a goroutine has called \<open>log.Fatal\<close>, which ends the process.
\<close>

datatype closer_pc = CloseStart | CloseSendErr error | CloseSendNil | CloseDone

record proc =
  chan :: "error option list"
  closer :: closer_pc
  run_ret :: "error option option"
  https_listening :: bool
  server_closed :: bool
  aborted :: bool

datatype thread = CloserT | RunT | HTTPST

text \<open>
  One step of one goroutine; \<open>None\<close> when the goroutine is blocked or has finished.
  \<open>cerr\<close> is what \<open>a.server.Close()\<close> returns.
  \<^item> \<open>CloserT\<close> runs \<open>Close\<close>: the call of \<open>a.server.Close()\<close>, then the send of the error
    if there is one, then the send of nil. A send needs room in the buffer.
  \<^item> \<open>RunT\<close> runs \<open>wait\<close>: the receive takes the oldest value and \<open>Run\<close> returns it.
  \<^item> \<open>HTTPST\<close> is the goroutine of lines 111 to 118. Once the server is closed,
    \<open>ListenAndServeTLS\<close> returns (\<open>http.ErrServerClosed\<close>, by the contract of
    \<open>net/http\<close>) and the goroutine passes the value to \<open>log.Fatal\<close>, as
    \<open>goroutine_body\<close> says.
\<close>

definition step :: "error option \<Rightarrow> thread \<Rightarrow> proc \<Rightarrow> proc option" where
  "step cerr t s =
    (if aborted s then None
     else case t of
       CloserT \<Rightarrow>
         (case closer s of
            CloseStart \<Rightarrow>
              Some (s\<lparr>server_closed := True,
                      closer := (case cerr of Some err \<Rightarrow> CloseSendErr err
                                 | None \<Rightarrow> CloseSendNil)\<rparr>)
          | CloseSendErr err \<Rightarrow>
              (if length (chan s) < 1
               then Some (s\<lparr>chan := chan s @ [Some err], closer := CloseSendNil\<rparr>)
               else None)
          | CloseSendNil \<Rightarrow>
              (if length (chan s) < 1
               then Some (s\<lparr>chan := chan s @ [None], closer := CloseDone\<rparr>)
               else None)
          | CloseDone \<Rightarrow> None)
     | RunT \<Rightarrow>
         (case run_ret s of
            Some r \<Rightarrow> None
          | None \<Rightarrow>
              (case chan s of
                 [] \<Rightarrow> None
               | v # vs \<Rightarrow> Some (s\<lparr>chan := vs, run_ret := Some v\<rparr>)))
     | HTTPST \<Rightarrow>
         (if https_listening s \<and> server_closed s
          then (case goroutine_body (HTTPSListener [] [] []) (Some (Error ''http: Server closed'')) of
                  Aborts r \<Rightarrow> Some (s\<lparr>https_listening := False, aborted := True\<rparr>)
                | Finishes \<Rightarrow> Some (s\<lparr>https_listening := False\<rparr>))
          else None))"

text \<open>A schedule is the list of the goroutines that step, in order.\<close>

fun exec :: "error option \<Rightarrow> thread list \<Rightarrow> proc \<Rightarrow> proc option" where
  "exec cerr [] s = Some s"
| "exec cerr (t # ts) s =
     (case step cerr t s of None \<Rightarrow> None | Some s' \<Rightarrow> exec cerr ts s')"

text \<open>
  A running instance on which \<open>Close\<close> is called: \<open>Run\<close> is blocked in \<open>wait\<close> on the
  empty channel that \<open>NewAbstruse\<close> made; \<open>h\<close> tells whether \<open>Run\<close> started the HTTPS
  listener.
\<close>

definition running_instance :: "bool \<Rightarrow> proc" where
  "running_instance h =
     \<lparr>chan = [], closer = CloseStart, run_ret = None, https_listening = h,
      server_closed = False, aborted = False\<rparr>"

text \<open>Whether \<open>Run\<close> starts the HTTPS listener of an instance (line 110).\<close>

definition starts_https :: "AbstruseConfig \<Rightarrow> bool" where
  "starts_https c = (HTTPSAddress c \<noteq> [] \<and> CertFile c \<noteq> [] \<and> KeyFile c \<noteq> [])"

text \<open>
  The states \<open>Close\<close> and \<open>wait\<close> go through, and the number of steps the two have
  left.
\<close>

fun steps_left :: "proc \<Rightarrow> nat" where
  "steps_left s =
     (case closer s of CloseStart \<Rightarrow> 3 | CloseSendErr err \<Rightarrow> 2 | CloseSendNil \<Rightarrow> 1
      | CloseDone \<Rightarrow> 0) +
     (case run_ret s of None \<Rightarrow> 1 | Some r \<Rightarrow> 0) +
     (if aborted s then 0 else 1)"

definition handshake_inv :: "error option \<Rightarrow> proc \<Rightarrow> bool" where
  "handshake_inv cerr s =
     (case closer s of
        CloseStart \<Rightarrow> chan s = [] \<and> run_ret s = None
      | CloseSendErr err \<Rightarrow> cerr = Some err \<and> chan s = [] \<and> run_ret s = None
      | CloseSendNil \<Rightarrow>
          (case cerr of
             None \<Rightarrow> chan s = [] \<and> run_ret s = None
           | Some err \<Rightarrow>
               (chan s = [Some err] \<and> run_ret s = None) \<or>
               (chan s = [] \<and> run_ret s = Some cerr))
      | CloseDone \<Rightarrow>
          (case cerr of
             None \<Rightarrow>
               (chan s = [None] \<and> run_ret s = None) \<or>
               (chan s = [] \<and> run_ret s = Some cerr)
           | Some err \<Rightarrow> chan s = [None] \<and> run_ret s = Some cerr))"

section \<open>Example instances\<close>

text \<open>
  A configuration file with every certificate path set, one with none, and collaborators
  that succeed: the directory and the file exist, the database connects, the gRPC server
  is built.
\<close>

definition full_file :: Config where
  "full_file =
     \<lparr>Security_Cert = ''/etc/abstruse/web.crt'', Security_CertKey = ''/etc/abstruse/web.key'',
      GRPC_Port = 3330, GRPC_Cert = ''/etc/abstruse/grpc.crt'',
      GRPC_CertKey = ''/etc/abstruse/grpc.key'',
      Database_Client = ''sqlite3'', Database_Host = ''localhost'', Database_Port = 3306,
      Database_User = ''root'', Database_Password = [], Database_Name = ''abstruse'',
      Database_Charset = ''utf8''\<rparr>"

definition bare_file :: Config where
  "bare_file =
     full_file\<lparr>Security_Cert := [], Security_CertKey := [], GRPC_Cert := [],
                GRPC_CertKey := []\<rparr>"

definition calm_env :: "Config \<Rightarrow> (unit, unit) env" where
  "calm_env cfg =
     \<lparr>GetHomeDir = (\<lambda>w. ''/root''),
      ReadAndParseConfig = (\<lambda>w path. cfg),
      NewGRPCServer = (\<lambda>w g l. Inr ()),
      Exists = (\<lambda>w path. True),
      MakeDir = (\<lambda>w path. (None, w)),
      WriteDefaultConfig = (\<lambda>w path. (None, w)),
      db_Connect = (\<lambda>w opts. (None, w))\<rparr>"

text \<open>An instance as \<open>NewAbstruse\<close> builds it, with the configuration \<open>c\<close>.\<close>

definition instance_of :: "AbstruseConfig \<Rightarrow> unit Abstruse" where
  "instance_of c =
     \<lparr>config = c, grpcserver = (), logger = NewLogger [] True False,
      dir = ''/root/abstruse'', running = []\<rparr>"


text \<open>
  Configurations as \<open>main\<close> builds them: one with a certificate but no key for HTTPS and
  a key but no certificate for gRPC; one with every listener configured; one with the
  gRPC listener alone; one from the default flags, without any certificate.
\<close>

definition one_sided :: AbstruseConfig where
  "one_sided =
     main_config (flag_defaults\<lparr>certFile := ''/tmp/own.crt'', gRPCKeyFile := ''/tmp/own.key''\<rparr>)"

definition all_listeners :: AbstruseConfig where
  "all_listeners =
     main_config (flag_defaults\<lparr>certFile := ''/tmp/own.crt'', keyFile := ''/tmp/own.key'',
                                gRPCCertFile := ''/tmp/grpc.crt'',
                                gRPCKeyFile := ''/tmp/grpc.key''\<rparr>)"

definition grpc_only :: AbstruseConfig where
  "grpc_only = all_listeners\<lparr>HTTPAddress := [], CertFile := []\<rparr>"

definition no_certificate :: AbstruseConfig where
  "no_certificate = main_config flag_defaults"

text \<open>
  The command line that names a certificate and a key for gRPC that do not exist, and the
  configuration \<open>main\<close> builds from it.
\<close>

definition bogus_args :: "(string \<times> string) list" where
  "bogus_args = [(''grpc-cert'', ''/no/such.crt''), (''grpc-certkey'', ''/no/such.key'')]"

definition bogus_paths :: AbstruseConfig where
  "bogus_paths =
     main_config (flag_defaults\<lparr>gRPCCertFile := ''/no/such.crt'',
                                gRPCKeyFile := ''/no/such.key''\<rparr>)"

section \<open>The startup options\<close>



















section \<open>Properties\<close>

subsection \<open>NewAbstruse\<close>

lemma GRPCConfig_https_from_file: "GRPCConfig (https_from_file cfg c) = GRPCConfig c"
  by (simp add: https_from_file_def)

lemma NewAbstruse_nil:
  "GRPCConfig c = None \<Longrightarrow>
   NewAbstruse e w c = (https_from_file (config_file e w c) c, Panic)"
  by (simp add: NewAbstruse_def config_file_def Let_def GRPCConfig_https_from_file)

lemma NewAbstruse_Some:
  "GRPCConfig c = Some g \<Longrightarrow>
   NewAbstruse e w c =
     (let cfg = config_file e w c;
          c2 = (https_from_file cfg c)\<lparr>GRPCConfig := Some (grpc_from_file cfg g)\<rparr>
      in (c2,
          case NewGRPCServer e w (grpc_from_file cfg g) (NewLogger [] True (Debug c)) of
            Inl err \<Rightarrow> Failure err
          | Inr srv \<Rightarrow>
              Return \<lparr>config = c2, grpcserver = srv, logger = NewLogger [] True (Debug c),
                      dir = work_dir e w c, running = []\<rparr>))"
  by (simp add: NewAbstruse_def config_file_def Let_def GRPCConfig_https_from_file
           split: sum.split)

lemma config_of_NewAbstruse:
  assumes "snd (NewAbstruse e w c) = Return a"
  shows "config a = fst (NewAbstruse e w c)"
proof (cases "GRPCConfig c")
  case None
  with assms show ?thesis
    by (simp add: NewAbstruse_nil)
next
  case (Some g)
  with assms show ?thesis
    by (auto simp: NewAbstruse_Some Let_def split: sum.splits)
qed

lemma effective_config:
  "fst (NewAbstruse e w (main_config fl)) =
     \<lparr>HTTPAddress = httpAddr fl, HTTPSAddress = httpsAddr fl,
      CertFile = (if certFile fl = [] \<or> keyFile fl = []
                  then Security_Cert (config_file e w (main_config fl)) else certFile fl),
      KeyFile = (if certFile fl = [] \<or> keyFile fl = []
                 then Security_CertKey (config_file e w (main_config fl)) else keyFile fl),
      GRPCConfig =
        Some \<lparr>Port = (if grpcPort fl = 0 then GRPC_Port (config_file e w (main_config fl))
                       else grpcPort fl),
              Cert = (if gRPCCertFile fl = [] \<or> gRPCKeyFile fl = []
                      then GRPC_Cert (config_file e w (main_config fl)) else gRPCCertFile fl),
              CertKey = (if gRPCCertFile fl = [] \<or> gRPCKeyFile fl = []
                         then GRPC_CertKey (config_file e w (main_config fl))
                         else gRPCKeyFile fl)\<rparr>,
      Dir = [], Debug = False\<rparr>"
proof -
  let ?g = "\<lparr>Port = grpcPort fl, Cert = gRPCCertFile fl, CertKey = gRPCKeyFile fl\<rparr>"
  let ?cfg = "config_file e w (main_config fl)"
  have G: "GRPCConfig (main_config fl) = Some ?g" by (simp add: main_config_def)
  have 1: "fst (NewAbstruse e w (main_config fl)) =
      (https_from_file ?cfg (main_config fl))\<lparr>GRPCConfig := Some (grpc_from_file ?cfg ?g)\<rparr>"
    by (simp add: NewAbstruse_Some[OF G] Let_def)
  have 2: "grpc_from_file ?cfg ?g =
      \<lparr>Port = (if grpcPort fl = 0 then GRPC_Port ?cfg else grpcPort fl),
       Cert = (if gRPCCertFile fl = [] \<or> gRPCKeyFile fl = [] then GRPC_Cert ?cfg
               else gRPCCertFile fl),
       CertKey = (if gRPCCertFile fl = [] \<or> gRPCKeyFile fl = [] then GRPC_CertKey ?cfg
                  else gRPCKeyFile fl)\<rparr>"
    by (simp add: grpc_from_file_def Let_def)
  have 3: "https_from_file ?cfg (main_config fl) =
      (main_config fl)
        \<lparr>CertFile := (if certFile fl = [] \<or> keyFile fl = [] then Security_Cert ?cfg
                      else certFile fl),
         KeyFile := (if certFile fl = [] \<or> keyFile fl = [] then Security_CertKey ?cfg
                     else keyFile fl)\<rparr>"
    by (simp add: https_from_file_def main_config_def)
  show ?thesis
    unfolding 1 2 3 by (simp add: main_config_def)
qed

lemma config_file_calm_env: "config_file (calm_env cfg) w c = cfg"
  by (simp add: config_file_def calm_env_def)

text \<open>
  Claim C9. In \<open>NewAbstruse\<close>, when one of \<open>CertFile\<close> and \<open>KeyFile\<close> is empty, both
  are overwritten with the values of the configuration file, so a value given for one
  member of the pair alone is discarded; the same holds for the pair \<open>Cert\<close>,
  \<open>CertKey\<close> of the gRPC configuration.
\<close>

theorem NewAbstruse_overwrites_both:
  "(CertFile c = [] \<or> KeyFile c = [] \<longrightarrow>
      CertFile (fst (NewAbstruse e w c)) = Security_Cert (config_file e w c) \<and>
      KeyFile (fst (NewAbstruse e w c)) = Security_CertKey (config_file e w c)) \<and>
   (GRPCConfig c = Some g \<and> (Cert g = [] \<or> CertKey g = []) \<longrightarrow>
      (\<exists>g'. GRPCConfig (fst (NewAbstruse e w c)) = Some g' \<and>
            Cert g' = GRPC_Cert (config_file e w c) \<and>
            CertKey g' = GRPC_CertKey (config_file e w c)))"
proof (intro conjI impI)
  assume h: "CertFile c = [] \<or> KeyFile c = []"
  have "CertFile (https_from_file (config_file e w c) c) = Security_Cert (config_file e w c)"
    using h by (auto simp: https_from_file_def)
  then show "CertFile (fst (NewAbstruse e w c)) = Security_Cert (config_file e w c)"
    by (cases "GRPCConfig c") (simp_all add: NewAbstruse_nil NewAbstruse_Some Let_def)
  have "KeyFile (https_from_file (config_file e w c) c) = Security_CertKey (config_file e w c)"
    using h by (auto simp: https_from_file_def)
  then show "KeyFile (fst (NewAbstruse e w c)) = Security_CertKey (config_file e w c)"
    by (cases "GRPCConfig c") (simp_all add: NewAbstruse_nil NewAbstruse_Some Let_def)
next
  assume h: "GRPCConfig c = Some g \<and> (Cert g = [] \<or> CertKey g = [])"
  then have "Cert (grpc_from_file (config_file e w c) g) = GRPC_Cert (config_file e w c)"
    and "CertKey (grpc_from_file (config_file e w c) g) = GRPC_CertKey (config_file e w c)"
    by (auto simp: grpc_from_file_def Let_def)
  with h show "\<exists>g'. GRPCConfig (fst (NewAbstruse e w c)) = Some g' \<and>
            Cert g' = GRPC_Cert (config_file e w c) \<and>
            CertKey g' = GRPC_CertKey (config_file e w c)"
    by (simp add: NewAbstruse_Some Let_def)
qed

theorem NewAbstruse_overwrites_both_witness:
  "CertFile one_sided = ''/tmp/own.crt'' \<and> KeyFile one_sided = [] \<and>
   CertFile (fst (NewAbstruse (calm_env full_file) () one_sided)) = ''/etc/abstruse/web.crt'' \<and>
   KeyFile (fst (NewAbstruse (calm_env full_file) () one_sided)) = ''/etc/abstruse/web.key'' \<and>
   GRPCConfig one_sided = Some \<lparr>Port = 3330, Cert = [], CertKey = ''/tmp/own.key''\<rparr> \<and>
   (\<exists>g'. GRPCConfig (fst (NewAbstruse (calm_env full_file) () one_sided)) = Some g' \<and>
         Cert g' = ''/etc/abstruse/grpc.crt'' \<and> CertKey g' = ''/etc/abstruse/grpc.key'')"
proof -
  have c: "CertFile one_sided = ''/tmp/own.crt''" "KeyFile one_sided = []"
    "GRPCConfig one_sided = Some \<lparr>Port = 3330, Cert = [], CertKey = ''/tmp/own.key''\<rparr>"
    by (simp_all add: one_sided_def main_config_def flag_defaults_def)
  have f: "config_file (calm_env full_file) () one_sided = full_file"
    by (simp add: config_file_def calm_env_def)
  have v: "Security_Cert full_file = ''/etc/abstruse/web.crt''"
    "Security_CertKey full_file = ''/etc/abstruse/web.key''"
    "GRPC_Cert full_file = ''/etc/abstruse/grpc.crt''"
    "GRPC_CertKey full_file = ''/etc/abstruse/grpc.key''"
    by (simp_all add: full_file_def)
  show ?thesis
    using c NewAbstruse_overwrites_both
      [of one_sided "calm_env full_file" "()" "\<lparr>Port = 3330, Cert = [], CertKey = ''/tmp/own.key''\<rparr>"]
    by (simp add: f v)
qed

subsection \<open>Run and main\<close>

lemma Run_nil: "Run e w None = (\<lparr>spawned = [], outcome = Panics\<rparr>, w)"
  by (simp add: Run_def)

lemma Run_init_fails:
  "init e w a = (Some err, w') \<Longrightarrow>
   Run e w (Some a) = (\<lparr>spawned = [], outcome = Returned (Some err)\<rparr>, w')"
  by (simp add: Run_def)

lemma Run_init_ok:
  "init e w a = (None, w') \<Longrightarrow> GRPCConfig (config a) = Some g \<Longrightarrow>
   Run e w (Some a) =
     (\<lparr>spawned =
         (if HTTPAddress (config a) \<noteq> [] then [HTTPListener (HTTPAddress (config a))] else []) @
         (if starts_https (config a)
          then [HTTPSListener (HTTPSAddress (config a)) (CertFile (config a)) (KeyFile (config a))]
          else []) @
         (if Cert g \<noteq> [] \<and> CertKey g \<noteq> [] then [GRPCListener] else []),
       outcome = (if Cert g \<noteq> [] \<and> CertKey g \<noteq> [] then ReachesWait
                  else LogFatal grpc_fatal_message)\<rparr>, w')"
  by (simp add: Run_def Let_def starts_https_def)

lemma Run_init_ok_nil:
  "init e w a = (None, w') \<Longrightarrow> GRPCConfig (config a) = None \<Longrightarrow>
   Run e w (Some a) =
     (\<lparr>spawned =
         (if HTTPAddress (config a) \<noteq> [] then [HTTPListener (HTTPAddress (config a))] else []) @
         (if starts_https (config a)
          then [HTTPSListener (HTTPSAddress (config a)) (CertFile (config a)) (KeyFile (config a))]
          else []),
       outcome = Panics\<rparr>, w')"
  by (simp add: Run_def Let_def starts_https_def)

lemma init_cases:
  obtains (ok) w' where "init e w a = (None, w')"
        | (fails) err w' where "init e w a = (Some err, w')"
  by (cases "init e w a") (case_tac a, auto)

lemma spawned_only_configured:
  "list_ex is_http (spawned (fst (Run e w ao))) \<Longrightarrow> \<exists>a. ao = Some a \<and> HTTPAddress (config a) \<noteq> []"
  "list_ex is_https (spawned (fst (Run e w ao))) \<Longrightarrow> \<exists>a. ao = Some a \<and> starts_https (config a)"
proof -
  show "list_ex is_http (spawned (fst (Run e w ao))) \<Longrightarrow> \<exists>a. ao = Some a \<and> HTTPAddress (config a) \<noteq> []"
  proof (cases ao)
    case None
    then show "list_ex is_http (spawned (fst (Run e w ao))) \<Longrightarrow> ?thesis" by (simp add: Run_nil)
  next
    case (Some a)
    assume h: "list_ex is_http (spawned (fst (Run e w ao)))"
    show ?thesis
    proof (cases rule: init_cases[of e w a])
      case (fails err w')
      with h Some show ?thesis by (simp add: Run_init_fails)
    next
      case (ok w')
      with h Some show ?thesis
        by (cases "GRPCConfig (config a)")
           (auto simp: Run_init_ok Run_init_ok_nil split: if_splits)
    qed
  qed
  show "list_ex is_https (spawned (fst (Run e w ao))) \<Longrightarrow> \<exists>a. ao = Some a \<and> starts_https (config a)"
  proof (cases ao)
    case None
    then show "list_ex is_https (spawned (fst (Run e w ao))) \<Longrightarrow> ?thesis" by (simp add: Run_nil)
  next
    case (Some a)
    assume h: "list_ex is_https (spawned (fst (Run e w ao)))"
    show ?thesis
    proof (cases rule: init_cases[of e w a])
      case (fails err w')
      with h Some show ?thesis by (simp add: Run_init_fails)
    next
      case (ok w')
      with h Some show ?thesis
        by (cases "GRPCConfig (config a)")
           (auto simp: Run_init_ok Run_init_ok_nil split: if_splits)
    qed
  qed
qed

text \<open>
  Claim C10. \<open>Run\<close> starts the HTTP listener only when \<open>HTTPAddress\<close> is not empty and
  the HTTPS listener only when \<open>HTTPSAddress\<close>, \<open>CertFile\<close> and \<open>KeyFile\<close> are all not
  empty. Once \<open>init\<close> has succeeded, the listeners started are exactly those, and how
  \<open>Run\<close> goes on depends on the gRPC certificate and key alone: a listener that is
  skipped causes no error and no abort, while a missing gRPC certificate or key is fatal.
\<close>

theorem Run_listeners:
  "(list_ex is_http (spawned (fst (Run e w (Some a)))) \<longrightarrow> HTTPAddress (config a) \<noteq> []) \<and>
   (list_ex is_https (spawned (fst (Run e w (Some a)))) \<longrightarrow>
      HTTPSAddress (config a) \<noteq> [] \<and> CertFile (config a) \<noteq> [] \<and> KeyFile (config a) \<noteq> []) \<and>
   (fst (init e w a) = None \<and> GRPCConfig (config a) = Some g \<longrightarrow>
      filter is_http (spawned (fst (Run e w (Some a)))) =
        (if HTTPAddress (config a) \<noteq> [] then [HTTPListener (HTTPAddress (config a))] else []) \<and>
      filter is_https (spawned (fst (Run e w (Some a)))) =
        (if HTTPSAddress (config a) \<noteq> [] \<and> CertFile (config a) \<noteq> [] \<and> KeyFile (config a) \<noteq> []
         then [HTTPSListener (HTTPSAddress (config a)) (CertFile (config a)) (KeyFile (config a))]
         else []) \<and>
      outcome (fst (Run e w (Some a))) =
        (if Cert g \<noteq> [] \<and> CertKey g \<noteq> [] then ReachesWait else LogFatal grpc_fatal_message))"
proof (intro conjI impI)
  assume "list_ex is_http (spawned (fst (Run e w (Some a))))"
  from spawned_only_configured(1)[OF this] show "HTTPAddress (config a) \<noteq> []" by simp
next
  assume h: "list_ex is_https (spawned (fst (Run e w (Some a))))"
  from spawned_only_configured(2)[OF h] have s: "starts_https (config a)" by simp
  from s show "HTTPSAddress (config a) \<noteq> []" by (simp add: starts_https_def)
  from s show "CertFile (config a) \<noteq> []" by (simp add: starts_https_def)
  from s show "KeyFile (config a) \<noteq> []" by (simp add: starts_https_def)
next
  assume h: "fst (init e w a) = None \<and> GRPCConfig (config a) = Some g"
  then obtain w' where i: "init e w a = (None, w')" by (cases "init e w a") simp
  from h have g: "GRPCConfig (config a) = Some g" by simp
  note r = Run_init_ok[OF i g]
  show "filter is_http (spawned (fst (Run e w (Some a)))) =
        (if HTTPAddress (config a) \<noteq> [] then [HTTPListener (HTTPAddress (config a))] else [])"
    by (simp add: r)
  show "filter is_https (spawned (fst (Run e w (Some a)))) =
        (if HTTPSAddress (config a) \<noteq> [] \<and> CertFile (config a) \<noteq> [] \<and> KeyFile (config a) \<noteq> []
         then [HTTPSListener (HTTPSAddress (config a)) (CertFile (config a)) (KeyFile (config a))]
         else [])"
    by (simp add: r starts_https_def)
  show "outcome (fst (Run e w (Some a))) =
        (if Cert g \<noteq> [] \<and> CertKey g \<noteq> [] then ReachesWait else LogFatal grpc_fatal_message)"
    by (simp add: r)
qed

theorem Run_listeners_witness:
  "list_ex is_http (spawned (fst (Run (calm_env full_file) () (Some (instance_of all_listeners))))) \<and>
   list_ex is_https (spawned (fst (Run (calm_env full_file) () (Some (instance_of all_listeners))))) \<and>
   fst (init (calm_env full_file) () (instance_of all_listeners)) = None \<and>
   fst (init (calm_env full_file) () (instance_of grpc_only)) = None \<and>
   HTTPAddress (config (instance_of all_listeners)) = ''0.0.0.0:80'' \<and>
   HTTPAddress (config (instance_of grpc_only)) = [] \<and>
   filter is_http (spawned (fst (Run (calm_env full_file) () (Some (instance_of grpc_only))))) = [] \<and>
   filter is_https (spawned (fst (Run (calm_env full_file) () (Some (instance_of grpc_only))))) = [] \<and>
   outcome (fst (Run (calm_env full_file) () (Some (instance_of grpc_only)))) = ReachesWait"
proof -
  let ?g = "\<lparr>Port = 3330, Cert = ''/tmp/grpc.crt'', CertKey = ''/tmp/grpc.key''\<rparr>"
  have i: "init (calm_env full_file) () (instance_of all_listeners) = (None, ())"
    "init (calm_env full_file) () (instance_of grpc_only) = (None, ())"
    by (simp_all add: init_def calm_env_def)
  have c: "config (instance_of all_listeners) = all_listeners"
    "config (instance_of grpc_only) = grpc_only"
    by (simp_all add: instance_of_def)
  have g: "GRPCConfig all_listeners = Some ?g" "GRPCConfig grpc_only = Some ?g"
    by (simp_all add: grpc_only_def all_listeners_def main_config_def flag_defaults_def)
  have a: "HTTPAddress all_listeners = ''0.0.0.0:80''" "HTTPSAddress all_listeners = ''0.0.0.0:443''"
    "CertFile all_listeners = ''/tmp/own.crt''" "KeyFile all_listeners = ''/tmp/own.key''"
    "HTTPAddress grpc_only = []" "CertFile grpc_only = []"
    by (simp_all add: grpc_only_def all_listeners_def main_config_def flag_defaults_def)
  have r: "spawned (fst (Run (calm_env full_file) () (Some (instance_of all_listeners)))) =
      [HTTPListener ''0.0.0.0:80'', HTTPSListener ''0.0.0.0:443'' ''/tmp/own.crt'' ''/tmp/own.key'',
       GRPCListener]"
    by (simp add: Run_def i c g a Let_def)
  show ?thesis
    using Run_listeners [of "calm_env full_file" "()" "instance_of all_listeners" ?g]
      Run_listeners [of "calm_env full_file" "()" "instance_of grpc_only" ?g]
    by (simp add: i c g a r)
qed

lemma Run_without_certificate:
  assumes g: "GRPCConfig (config a) = Some g" and c: "Cert g = [] \<or> CertKey g = []"
  shows "GRPCListener \<notin> set (spawned (fst (Run e w (Some a))))"
    and "outcome (fst (Run e w (Some a))) =
           (case fst (init e w a) of None \<Rightarrow> LogFatal grpc_fatal_message
            | Some err \<Rightarrow> Returned (Some err))"
proof -
  show "GRPCListener \<notin> set (spawned (fst (Run e w (Some a))))"
  proof (cases rule: init_cases[of e w a])
    case (fails err w')
    then show ?thesis by (simp add: Run_init_fails)
  next
    case (ok w')
    from c show ?thesis by (auto simp: Run_init_ok[OF ok g])
  qed
  show "outcome (fst (Run e w (Some a))) =
           (case fst (init e w a) of None \<Rightarrow> LogFatal grpc_fatal_message
            | Some err \<Rightarrow> Returned (Some err))"
  proof (cases rule: init_cases[of e w a])
    case (fails err w')
    then show ?thesis by (simp add: Run_init_fails)
  next
    case (ok w')
    from c show ?thesis by (auto simp: Run_init_ok[OF ok g] ok)
  qed
qed

lemma after_Run_fatal:
  "outcome r = LogFatal m \<Longrightarrow> is_fatal (after_Run r)"
  "outcome r = Returned (Some err) \<Longrightarrow> is_fatal (after_Run r)"
  "outcome r = Panics \<Longrightarrow> is_fatal (after_Run r)"
  by (cases err; simp)+

lemma main_without_certificate:
  assumes p: "flag_Parse atoi args = Inr fl"
    and f: "gRPCCertFile fl = [] \<or> gRPCKeyFile fl = []"
    and c: "GRPC_Cert (config_file e w (main_config fl)) = [] \<or>
            GRPC_CertKey (config_file e w (main_config fl)) = []"
  shows "is_fatal (main e atoi w args)"
proof -
  let ?c = "main_config fl"
  let ?g = "\<lparr>Port = grpcPort fl, Cert = gRPCCertFile fl, CertKey = gRPCKeyFile fl\<rparr>"
  let ?g' = "grpc_from_file (config_file e w ?c) ?g"
  have G: "GRPCConfig ?c = Some ?g" by (simp add: main_config_def)
  have G': "GRPCConfig (fst (NewAbstruse e w ?c)) = Some ?g'"
    by (simp add: NewAbstruse_Some[OF G] Let_def)
  from f c have E: "Cert ?g' = [] \<or> CertKey ?g' = []"
    by (auto simp: grpc_from_file_def Let_def)
  show ?thesis
  proof (cases "snd (NewAbstruse e w ?c)")
    case Panic
    with p show ?thesis by (simp add: main_def)
  next
    case (Failure err)
    with p show ?thesis by (simp add: main_def Run_nil)
  next
    case (Return a)
    from config_of_NewAbstruse[OF Return] G' have g: "GRPCConfig (config a) = Some ?g'" by simp
    note o = Run_without_certificate(2)[OF g E, of e w]
    have "is_fatal (after_Run (fst (Run e w (Some a))))"
    proof (cases "fst (init e w a)")
      case None
      with o have "outcome (fst (Run e w (Some a))) = LogFatal grpc_fatal_message" by simp
      then show ?thesis by (rule after_Run_fatal(1))
    next
      case (Some err)
      with o have "outcome (fst (Run e w (Some a))) = Returned (Some err)" by simp
      then show ?thesis by (rule after_Run_fatal(2))
    qed
    with p Return show ?thesis by (simp add: main_def)
  qed
qed

lemma Listen_invalid:
  "Cert g = [] \<or> CertKey g = [] \<or> \<not> valid (Cert g) \<or> \<not> valid (CertKey g) \<Longrightarrow>
   goroutine_body GRPCListener (Listen valid g) = Aborts (Some (Error ''ConfigError''))"
  by (auto simp: Listen_def)

lemma Run_with_paths:
  assumes g: "GRPCConfig (config a) = Some g" and n: "Cert g \<noteq> []" "CertKey g \<noteq> []"
  shows "case fst (init e w a) of
           Some err \<Rightarrow> fst (Run e w (Some a)) = \<lparr>spawned = [], outcome = Returned (Some err)\<rparr>
         | None \<Rightarrow> outcome (fst (Run e w (Some a))) = ReachesWait \<and>
                    GRPCListener \<in> set (spawned (fst (Run e w (Some a))))"
proof (cases rule: init_cases[of e w a])
  case (fails err w')
  then show ?thesis by (simp add: Run_init_fails)
next
  case (ok w')
  with n show ?thesis by (simp add: Run_init_ok[OF ok g])
qed

lemma main_fatal_or_blocked:
  assumes p: "flag_Parse atoi args = Inr fl"
    and G: "GRPCConfig (fst (NewAbstruse e w (main_config fl))) = Some g"
  shows "is_fatal (main e atoi w args) \<or>
         (Cert g \<noteq> [] \<and> CertKey g \<noteq> [] \<and>
          (\<exists>gs. main e atoi w args = MainBlocked gs \<and> GRPCListener \<in> set gs))"
proof (cases "snd (NewAbstruse e w (main_config fl))")
  case Panic
  with p show ?thesis by (simp add: main_def)
next
  case (Failure err)
  with p show ?thesis by (simp add: main_def Run_nil)
next
  case (Return a)
  from config_of_NewAbstruse[OF Return] G have g: "GRPCConfig (config a) = Some g" by simp
  from p Return have m: "main e atoi w args = after_Run (fst (Run e w (Some a)))"
    by (simp add: main_def)
  show ?thesis
  proof (cases "Cert g \<noteq> [] \<and> CertKey g \<noteq> []")
    case False
    then have E: "Cert g = [] \<or> CertKey g = []" by simp
    note o = Run_without_certificate(2)[OF g E, of e w]
    have "is_fatal (after_Run (fst (Run e w (Some a))))"
    proof (cases "fst (init e w a)")
      case None
      with o have "outcome (fst (Run e w (Some a))) = LogFatal grpc_fatal_message" by simp
      then show ?thesis by (rule after_Run_fatal(1))
    next
      case (Some err)
      with o have "outcome (fst (Run e w (Some a))) = Returned (Some err)" by simp
      then show ?thesis by (rule after_Run_fatal(2))
    qed
    with m show ?thesis by simp
  next
    case True
    then have n: "Cert g \<noteq> []" "CertKey g \<noteq> []" by simp_all
    note r = Run_with_paths[OF g n, of e w]
    show ?thesis
    proof (cases "fst (init e w a)")
      case (Some err)
      with r have "outcome (fst (Run e w (Some a))) = Returned (Some err)" by simp
      then have "is_fatal (after_Run (fst (Run e w (Some a))))" by (rule after_Run_fatal(2))
      with m show ?thesis by simp
    next
      case None
      with r have o: "outcome (fst (Run e w (Some a))) = ReachesWait"
        and s: "GRPCListener \<in> set (spawned (fst (Run e w (Some a))))" by simp_all
      from o m have "main e atoi w args = MainBlocked (spawned (fst (Run e w (Some a))))"
        by simp
      with s n show ?thesis by blast
    qed
  qed
qed

lemma process_without_certificate:
  assumes p: "flag_Parse atoi args = Inr fl"
    and G: "GRPCConfig (fst (NewAbstruse e w (main_config fl))) = Some g"
    and i: "Cert g = [] \<or> CertKey g = [] \<or> \<not> valid (Cert g) \<or> \<not> valid (CertKey g)"
  shows "is_fatal (main e atoi w args) \<or>
         (\<exists>gs. main e atoi w args = MainBlocked gs \<and> GRPCListener \<in> set gs \<and>
               goroutine_body GRPCListener (Listen valid g) =
                 Aborts (Some (Error ''ConfigError'')))"
  using main_fatal_or_blocked[OF p G] Listen_invalid[OF i] by blast

text \<open>
  Claim C1. When the certificate path or the key path of the gRPC server is absent or
  invalid, the process fails and serves no worker; there is no fallback without
  certificate.
  \<^item> Absent: \<open>Run\<close> never starts the gRPC listener; it ends in \<open>log.Fatal\<close> once \<open>init\<close> has
    succeeded and returns the error of \<open>init\<close> otherwise. \<open>main\<close>, started without the
    two paths on the command line and in the configuration file, ends in \<open>log.Fatal\<close> or in
    a panic.
  \<^item> Invalid: \<open>Run\<close> itself tests the paths for emptiness only. With two paths that are
    not empty it starts the gRPC goroutine and goes on to \<open>wait\<close>; \<open>Listen\<close> fails on
    the invalid material and the goroutine passes its error to \<open>log.Fatal\<close>.
  \<^item> In both cases, for the configuration \<open>NewAbstruse\<close> leaves behind: \<open>main\<close> ends in
    \<open>log.Fatal\<close> or in a panic, or it is blocked in \<open>wait\<close> beside the gRPC goroutine,
    which ends the process with the error of \<open>Listen\<close>.
\<close>

theorem grpc_certificate_required:
  "(GRPCConfig (config a) = Some g \<and> (Cert g = [] \<or> CertKey g = []) \<longrightarrow>
      GRPCListener \<notin> set (spawned (fst (Run e w (Some a)))) \<and>
      outcome (fst (Run e w (Some a))) =
        (case fst (init e w a) of None \<Rightarrow> LogFatal grpc_fatal_message
         | Some err \<Rightarrow> Returned (Some err))) \<and>
   (flag_Parse atoi args = Inr fl \<and>
    (gRPCCertFile fl = [] \<or> gRPCKeyFile fl = []) \<and>
    (GRPC_Cert (config_file e w (main_config fl)) = [] \<or>
     GRPC_CertKey (config_file e w (main_config fl)) = []) \<longrightarrow>
      is_fatal (main e atoi w args)) \<and>
   (GRPCConfig (config b) = Some h \<and> Cert h \<noteq> [] \<and> CertKey h \<noteq> [] \<and>
    (\<not> valid (Cert h) \<or> \<not> valid (CertKey h)) \<longrightarrow>
      (case fst (init e w b) of
         Some err \<Rightarrow> fst (Run e w (Some b)) = \<lparr>spawned = [], outcome = Returned (Some err)\<rparr>
       | None \<Rightarrow> outcome (fst (Run e w (Some b))) = ReachesWait \<and>
                  GRPCListener \<in> set (spawned (fst (Run e w (Some b))))) \<and>
      goroutine_body GRPCListener (Listen valid h) = Aborts (Some (Error ''ConfigError''))) \<and>
   (flag_Parse atoi args' = Inr fl' \<and>
    GRPCConfig (fst (NewAbstruse e w (main_config fl'))) = Some g' \<and>
    (Cert g' = [] \<or> CertKey g' = [] \<or> \<not> valid (Cert g') \<or> \<not> valid (CertKey g')) \<longrightarrow>
      is_fatal (main e atoi w args') \<or>
      (\<exists>gs. main e atoi w args' = MainBlocked gs \<and> GRPCListener \<in> set gs \<and>
            goroutine_body GRPCListener (Listen valid g') =
              Aborts (Some (Error ''ConfigError''))))"
proof (intro conjI impI)
  assume h: "GRPCConfig (config a) = Some g \<and> (Cert g = [] \<or> CertKey g = [])"
  then have g: "GRPCConfig (config a) = Some g" and c: "Cert g = [] \<or> CertKey g = []"
    by simp_all
  show "GRPCListener \<notin> set (spawned (fst (Run e w (Some a))))"
    by (rule Run_without_certificate(1)[OF g c])
  show "outcome (fst (Run e w (Some a))) =
        (case fst (init e w a) of None \<Rightarrow> LogFatal grpc_fatal_message
         | Some err \<Rightarrow> Returned (Some err))"
    by (rule Run_without_certificate(2)[OF g c])
next
  assume "flag_Parse atoi args = Inr fl \<and>
    (gRPCCertFile fl = [] \<or> gRPCKeyFile fl = []) \<and>
    (GRPC_Cert (config_file e w (main_config fl)) = [] \<or>
     GRPC_CertKey (config_file e w (main_config fl)) = [])"
  then show "is_fatal (main e atoi w args)"
    using main_without_certificate[of atoi args fl e w] by blast
next
  assume h: "GRPCConfig (config b) = Some h \<and> Cert h \<noteq> [] \<and> CertKey h \<noteq> [] \<and>
    (\<not> valid (Cert h) \<or> \<not> valid (CertKey h))"
  then have g: "GRPCConfig (config b) = Some h" and n: "Cert h \<noteq> []" "CertKey h \<noteq> []"
    and i: "Cert h = [] \<or> CertKey h = [] \<or> \<not> valid (Cert h) \<or> \<not> valid (CertKey h)"
    by simp_all
  show "case fst (init e w b) of
         Some err \<Rightarrow> fst (Run e w (Some b)) = \<lparr>spawned = [], outcome = Returned (Some err)\<rparr>
       | None \<Rightarrow> outcome (fst (Run e w (Some b))) = ReachesWait \<and>
                  GRPCListener \<in> set (spawned (fst (Run e w (Some b))))"
    by (rule Run_with_paths[OF g n])
  show "goroutine_body GRPCListener (Listen valid h) = Aborts (Some (Error ''ConfigError''))"
    by (rule Listen_invalid[OF i])
next
  assume "flag_Parse atoi args' = Inr fl' \<and>
    GRPCConfig (fst (NewAbstruse e w (main_config fl'))) = Some g' \<and>
    (Cert g' = [] \<or> CertKey g' = [] \<or> \<not> valid (Cert g') \<or> \<not> valid (CertKey g'))"
  then show "is_fatal (main e atoi w args') \<or>
      (\<exists>gs. main e atoi w args' = MainBlocked gs \<and> GRPCListener \<in> set gs \<and>
            goroutine_body GRPCListener (Listen valid g') =
              Aborts (Some (Error ''ConfigError'')))"
    using process_without_certificate[of atoi args' fl' e w g' valid] by blast
qed

theorem grpc_certificate_required_witness:
  "GRPCConfig (config (instance_of no_certificate)) = Some \<lparr>Port = 3330, Cert = [], CertKey = []\<rparr> \<and>
   GRPCListener \<notin> set (spawned (fst (Run (calm_env bare_file) () (Some (instance_of no_certificate))))) \<and>
   outcome (fst (Run (calm_env bare_file) () (Some (instance_of no_certificate)))) =
     LogFatal grpc_fatal_message \<and>
   flag_Parse (\<lambda>v. None) [(''http'', '':8080'')] = Inr (flag_defaults\<lparr>httpAddr := '':8080''\<rparr>) \<and>
   is_fatal (main (calm_env bare_file) (\<lambda>v. None) () [(''http'', '':8080'')]) \<and>
   GRPCConfig (config (instance_of bogus_paths)) =
     Some \<lparr>Port = 3330, Cert = ''/no/such.crt'', CertKey = ''/no/such.key''\<rparr> \<and>
   outcome (fst (Run (calm_env bare_file) () (Some (instance_of bogus_paths)))) = ReachesWait \<and>
   GRPCListener \<in> set (spawned (fst (Run (calm_env bare_file) () (Some (instance_of bogus_paths))))) \<and>
   main (calm_env bare_file) (\<lambda>v. None) () bogus_args =
     MainBlocked [HTTPListener ''0.0.0.0:80'', GRPCListener] \<and>
   goroutine_body GRPCListener
     (Listen (\<lambda>path. False) \<lparr>Port = 3330, Cert = ''/no/such.crt'', CertKey = ''/no/such.key''\<rparr>) =
     Aborts (Some (Error ''ConfigError''))"
proof -
  let ?e = "calm_env bare_file"
  let ?g = "\<lparr>Port = 3330, Cert = [], CertKey = []\<rparr>"
  let ?h = "\<lparr>Port = 3330, Cert = ''/no/such.crt'', CertKey = ''/no/such.key''\<rparr>"
  let ?fl = "flag_defaults\<lparr>httpAddr := '':8080''\<rparr>"
  let ?fl' = "flag_defaults\<lparr>gRPCCertFile := ''/no/such.crt'', gRPCKeyFile := ''/no/such.key''\<rparr>"
  have g: "GRPCConfig (config (instance_of no_certificate)) = Some ?g"
    by (simp add: instance_of_def no_certificate_def main_config_def flag_defaults_def)
  have h: "GRPCConfig (config (instance_of bogus_paths)) = Some ?h"
    by (simp add: instance_of_def bogus_paths_def main_config_def flag_defaults_def)
  have i: "init ?e () (instance_of no_certificate) = (None, ())"
    "init ?e () (instance_of bogus_paths) = (None, ())"
    by (simp_all add: init_def calm_env_def)
  have p: "flag_Parse (\<lambda>v. None) [(''http'', '':8080'')] = Inr ?fl"
    by (simp add: flag_Parse_def CommandLine_def)
  have p': "flag_Parse (\<lambda>v. None) bogus_args = Inr ?fl'"
    by (simp add: flag_Parse_def CommandLine_def bogus_args_def)
  have f: "gRPCCertFile ?fl = []" by (simp add: flag_defaults_def)
  have b: "GRPC_Cert (config_file ?e () (main_config ?fl)) = []"
    by (simp add: config_file_calm_env bare_file_def)
  have G': "GRPCConfig (fst (NewAbstruse ?e () (main_config ?fl'))) = Some ?h"
    by (simp add: effective_config flag_defaults_def)
  note t = grpc_certificate_required
      [of "instance_of no_certificate" ?g ?e "()" "\<lambda>v. None" "[(''http'', '':8080'')]" ?fl
          "instance_of bogus_paths" ?h "\<lambda>path. False" bogus_args ?fl' ?h]
  from t g i p f b have 1:
    "GRPCListener \<notin> set (spawned (fst (Run ?e () (Some (instance_of no_certificate)))))"
    "outcome (fst (Run ?e () (Some (instance_of no_certificate)))) = LogFatal grpc_fatal_message"
    "is_fatal (main ?e (\<lambda>v. None) () [(''http'', '':8080'')])"
    by simp_all
  from t h i have 2:
    "outcome (fst (Run ?e () (Some (instance_of bogus_paths)))) = ReachesWait"
    "GRPCListener \<in> set (spawned (fst (Run ?e () (Some (instance_of bogus_paths)))))"
    "goroutine_body GRPCListener (Listen (\<lambda>path. False) ?h) = Aborts (Some (Error ''ConfigError''))"
    by simp_all
  have s: "snd (NewAbstruse ?e () (main_config ?fl')) = Return (instance_of bogus_paths)"
    by (simp add: NewAbstruse_def Let_def work_dir_def https_from_file_def grpc_from_file_def
          main_config_def flag_defaults_def calm_env_def bare_file_def full_file_def
          instance_of_def bogus_paths_def)
  have m0: "main ?e (\<lambda>v. None) () bogus_args =
      after_Run (fst (Run ?e () (Some (instance_of bogus_paths))))"
    by (simp add: main_def p' s)
  have c: "HTTPAddress (config (instance_of bogus_paths)) = ''0.0.0.0:80''"
    "\<not> starts_https (config (instance_of bogus_paths))"
    by (simp_all add: instance_of_def bogus_paths_def main_config_def flag_defaults_def
          starts_https_def)
  have r: "fst (Run ?e () (Some (instance_of bogus_paths))) =
      \<lparr>spawned = [HTTPListener ''0.0.0.0:80'', GRPCListener], outcome = ReachesWait\<rparr>"
    by (simp add: Run_init_ok[OF i(2) h] c)
  have m: "main ?e (\<lambda>v. None) () bogus_args =
      MainBlocked [HTTPListener ''0.0.0.0:80'', GRPCListener]"
    by (simp add: m0 r)
  from g h p 1 2 m show ?thesis by simp
qed

subsection \<open>Close and wait\<close>

lemma handshake_inv_start: "handshake_inv cerr (running_instance h)"
  by (simp add: handshake_inv_def running_instance_def)


lemma step_CloserT:
  "\<not> aborted s \<Longrightarrow> step cerr CloserT s =
     (case closer s of
        CloseStart \<Rightarrow>
          Some (s\<lparr>server_closed := True,
                  closer := (case cerr of Some err \<Rightarrow> CloseSendErr err | None \<Rightarrow> CloseSendNil)\<rparr>)
      | CloseSendErr err \<Rightarrow>
          (if chan s = [] then Some (s\<lparr>chan := [Some err], closer := CloseSendNil\<rparr>) else None)
      | CloseSendNil \<Rightarrow>
          (if chan s = [] then Some (s\<lparr>chan := [None], closer := CloseDone\<rparr>) else None)
      | CloseDone \<Rightarrow> None)"
  by (simp add: step_def split: closer_pc.split)


lemma step_RunT:
  "\<not> aborted s \<Longrightarrow> step cerr RunT s =
     (case run_ret s of
        Some r \<Rightarrow> None
      | None \<Rightarrow> (case chan s of [] \<Rightarrow> None | v # vs \<Rightarrow> Some (s\<lparr>chan := vs, run_ret := Some v\<rparr>)))"
  by (simp add: step_def)


lemma step_HTTPST:
  "\<not> aborted s \<Longrightarrow> step cerr HTTPST s =
     (if https_listening s \<and> server_closed s
      then Some (s\<lparr>https_listening := False, aborted := True\<rparr>) else None)"
  by (simp add: step_def)


lemma step_aborted: "aborted s \<Longrightarrow> step cerr t s = None"
  by (simp add: step_def)


lemma step_not_aborted: "step cerr t s = Some s' \<Longrightarrow> \<not> aborted s"
  by (cases "aborted s") (simp_all add: step_aborted)


lemma handshake_inv_step:
  assumes i: "handshake_inv cerr s" and st: "step cerr t s = Some s'"
  shows "handshake_inv cerr s'"
proof -
  from st have na: "\<not> aborted s" by (rule step_not_aborted)
  show ?thesis
  proof (cases t)
    case CloserT
    with st have c: "step cerr CloserT s = Some s'" by simp
    show ?thesis
    proof (cases "closer s")
      case CloseStart
      with c i na show ?thesis
        by (cases cerr) (auto simp: step_CloserT handshake_inv_def)
    next
      case (CloseSendErr err)
      with c i na show ?thesis
        by (auto simp: step_CloserT handshake_inv_def split: if_splits)
    next
      case CloseSendNil
      with c i na show ?thesis
        by (cases cerr) (auto simp: step_CloserT handshake_inv_def split: if_splits)
    next
      case CloseDone
      with c na show ?thesis by (simp add: step_CloserT)
    qed
  next
    case RunT
    with st have c: "step cerr RunT s = Some s'" by simp
    show ?thesis
    proof (cases "run_ret s")
      case (Some r)
      with c na show ?thesis by (simp add: step_RunT)
    next
      case None
      show ?thesis
      proof (cases "chan s")
        case Nil
        with c na None show ?thesis by (simp add: step_RunT)
      next
        case (Cons v vs)
        with c na None have s': "s' = s\<lparr>chan := vs, run_ret := Some v\<rparr>"
          by (simp add: step_RunT)
        from i None Cons show ?thesis
          unfolding s' handshake_inv_def
          by (cases "closer s"; cases cerr) auto
      qed
    qed
  next
    case HTTPST
    with st have c: "step cerr HTTPST s = Some s'" by simp
    with na have s': "s' = s\<lparr>https_listening := False, aborted := True\<rparr>"
      by (simp add: step_HTTPST split: if_splits)
    from i show ?thesis
      unfolding s' handshake_inv_def
      by (cases "closer s"; cases cerr) simp_all
  qed
qed


lemma handshake_inv_exec:
  "handshake_inv cerr s \<Longrightarrow> exec cerr sched s = Some s' \<Longrightarrow> handshake_inv cerr s'"
proof (induction sched arbitrary: s)
  case Nil
  then show ?case by simp
next
  case (Cons t ts)
  then show ?case
    by (cases "step cerr t s") (auto intro: handshake_inv_step)
qed


lemma handshake_result:
  "handshake_inv cerr s \<Longrightarrow> run_ret s = Some r \<Longrightarrow> r = cerr"
  unfolding handshake_inv_def
  by (cases "closer s"; cases cerr) auto


lemma handshake_progress:
  assumes "handshake_inv cerr s" and "\<not> aborted s" and "run_ret s = None"
  shows "step cerr CloserT s \<noteq> None \<or> step cerr RunT s \<noteq> None"
  using assms
  unfolding step_CloserT[OF assms(2)] step_RunT[OF assms(2)] handshake_inv_def
  by (cases "closer s"; cases cerr) auto


lemma step_steps_left:
  assumes "step cerr t s = Some s'"
  shows "steps_left s' < steps_left s"
proof -
  from assms have na: "\<not> aborted s" by (rule step_not_aborted)
  show ?thesis
  proof (cases t)
    case CloserT
    with assms na show ?thesis
      by (cases "closer s"; cases cerr) (auto simp: step_CloserT split: if_splits)
  next
    case RunT
    with assms na show ?thesis
      by (cases "run_ret s"; cases "chan s") (auto simp: step_RunT)
  next
    case HTTPST
    with assms na show ?thesis
      by (auto simp: step_HTTPST split: if_splits)
  qed
qed


lemma no_abort_without_https_step:
  assumes "\<not> https_listening s" and "\<not> aborted s" and "step cerr t s = Some s'"
  shows "\<not> https_listening s' \<and> \<not> aborted s'"
proof (cases t)
  case CloserT
  with assms show ?thesis
    by (cases "closer s"; cases cerr) (auto simp: step_CloserT split: if_splits)
next
  case RunT
  with assms show ?thesis
    by (cases "run_ret s"; cases "chan s") (auto simp: step_RunT)
next
  case HTTPST
  with assms show ?thesis
    by (auto simp: step_HTTPST split: if_splits)
qed


lemma no_abort_without_https:
  "\<not> https_listening s \<Longrightarrow> \<not> aborted s \<Longrightarrow> exec cerr sched s = Some s' \<Longrightarrow>
   \<not> https_listening s' \<and> \<not> aborted s'"
proof (induction sched arbitrary: s)
  case Nil
  then show ?case by simp
next
  case (Cons t ts)
  show ?case
  proof (cases "step cerr t s")
    case None
    with Cons.prems show ?thesis by simp
  next
    case (Some s1)
    from no_abort_without_https_step[OF Cons.prems(1,2) Some]
    have "\<not> https_listening s1" "\<not> aborted s1" by simp_all
    moreover from Cons.prems(3) Some have "exec cerr ts s1 = Some s'" by simp
    ultimately show ?thesis by (rule Cons.IH)
  qed
qed


lemma exec_length:
  "exec cerr sched s = Some s' \<Longrightarrow> steps_left s' + length sched \<le> steps_left s"
proof (induction sched arbitrary: s)
  case Nil
  then show ?case by simp
next
  case (Cons t ts)
  show ?case
  proof (cases "step cerr t s")
    case None
    with Cons.prems show ?thesis by simp
  next
    case (Some s1)
    with Cons.prems have "exec cerr ts s1 = Some s'" by simp
    from Cons.IH[OF this] step_steps_left[OF Some] show ?thesis by simp
  qed
qed


text \<open>
  Without the HTTPS listener, \<open>Close\<close> makes \<open>Run\<close> return what \<open>a.server.Close()\<close>
  returned: from the running instance every schedule runs at most five steps, no state is
  aborted, a state in which \<open>Run\<close> is still blocked has a next step, and the value
  \<open>Run\<close> returns is the one of \<open>Close\<close>.
\<close>


lemma Close_returns_without_https:
  assumes "exec cerr sched (running_instance False) = Some s"
  shows "length sched \<le> 5"
    and "\<not> aborted s"
    and "run_ret s = None \<Longrightarrow> step cerr CloserT s \<noteq> None \<or> step cerr RunT s \<noteq> None"
    and "run_ret s = Some r \<Longrightarrow> r = cerr"
proof -
  from exec_length[OF assms] show "length sched \<le> 5"
    by (simp add: running_instance_def)
  from no_abort_without_https[OF _ _ assms] show na: "\<not> aborted s"
    by (simp add: running_instance_def)
  note inv = handshake_inv_exec[OF handshake_inv_start assms]
  show "run_ret s = None \<Longrightarrow> step cerr CloserT s \<noteq> None \<or> step cerr RunT s \<noteq> None"
    using inv na by (rule handshake_progress)
  show "run_ret s = Some r \<Longrightarrow> r = cerr"
    using inv by (rule handshake_result)
qed


lemma Close_then_wait:
  "\<exists>s. exec cerr [CloserT, CloserT, RunT] (running_instance h) = Some s \<and>
       run_ret s = Some cerr"
  by (cases cerr) (simp_all add: step_def running_instance_def)


text \<open>
  Claim C8. Calling \<open>Close\<close> on a running instance makes \<open>Run\<close> return the error of
  \<open>a.server.Close()\<close>, or nil. The code does not keep this once \<open>Run\<close> has started the
  HTTPS listener: \<open>a.server.Close()\<close> makes \<open>ListenAndServeTLS\<close> return in the HTTPS
  goroutine, which passes the value to \<open>log.Fatal\<close>. On the instance with every listener
  configured and a clean \<open>a.server.Close()\<close>, the schedule in which that goroutine runs
  right after \<open>a.server.Close()\<close> ends the process with \<open>Run\<close> still blocked in \<open>wait\<close>,
  and no goroutine steps after that.
\<close>


theorem Close_aborts_with_https:
  "starts_https all_listeners \<and>
   exec None [CloserT, HTTPST] (running_instance (starts_https all_listeners)) =
     Some \<lparr>chan = [], closer = CloseSendNil, run_ret = None, https_listening = False,
           server_closed = True, aborted = True\<rparr> \<and>
   step None CloserT \<lparr>chan = [], closer = CloseSendNil, run_ret = None, https_listening = False,
           server_closed = True, aborted = True\<rparr> = None \<and>
   step None RunT \<lparr>chan = [], closer = CloseSendNil, run_ret = None, https_listening = False,
           server_closed = True, aborted = True\<rparr> = None \<and>
   step None HTTPST \<lparr>chan = [], closer = CloseSendNil, run_ret = None, https_listening = False,
           server_closed = True, aborted = True\<rparr> = None"
proof -
  have h: "starts_https all_listeners"
    by (simp add: starts_https_def all_listeners_def main_config_def flag_defaults_def)
  show ?thesis
    by (simp add: h step_def running_instance_def)
qed

subsection \<open>The startup options\<close>













end
